theory Spec2Isabelle
  imports Main "HOL-Library.Word"
begin

section \<open>The background-removal service of \<^verbatim>\<open>backend/main.py\<close>\<close>

text \<open>
  The program is one FastAPI application with one request handler:
  \<^verbatim>\<open>
  app = FastAPI()
  app.add_middleware(CORSMiddleware, allow_origins=["*"], allow_methods=["POST"],
                     allow_headers=["*"])
  remover = Remover(mode='fast', resize='dynamic')

  @app.post("/api/remove-background")
  async def remove_background_endpoint(file: UploadFile = File(...)):
      image_bytes = await file.read()
      img = Image.open(io.BytesIO(image_bytes)).convert('RGB')
      out_img = remover.process(img, type='rgba')
      buf = io.BytesIO()
      out_img.save(buf, format='PNG')
      return Response(content=buf.getvalue(), media_type='image/png')
  \<close>
  Everything the handler calls is a library: Pillow (\<^verbatim>\<open>Image.open\<close>, \<^verbatim>\<open>convert\<close>,
  \<^verbatim>\<open>save\<close>), the segmentation model (\<^verbatim>\<open>Remover\<close>, \<^verbatim>\<open>process\<close>) and the web
  framework. The libraries are parameters of the embedding (a record of functions); what
  the handler does with them is modelled statement by statement. Every call of a
  library may raise, so it returns a sum; the handler has no \<^verbatim>\<open>try\<close>, so the first
  exception ends the request. A call of \<^verbatim>\<open>process\<close> may change the model object, so it
  returns the object as well.
\<close>

subsection \<open>Data\<close>

type_synonym byte = "8 word"
type_synonym bytes = "byte list"

text \<open>A Python exception, by its message.\<close>

type_synonym exn = string

text \<open>
  A Pillow image: its \<^verbatim>\<open>mode\<close> string, its \<^verbatim>\<open>size\<close> and its pixels in row-major
  order, each pixel the list of its band samples.
\<close>

record bitmap =
  mode :: string
  width :: nat
  height :: nat
  pixels :: "nat list list"

text \<open>Pillow's \<^verbatim>\<open>Image.getbands\<close> for the standard modes.\<close>

definition getbands :: "string \<Rightarrow> string list" where
  "getbands m =
     (if m = ''1'' then [''1'']
      else if m = ''L'' then [''L'']
      else if m = ''P'' then [''P'']
      else if m = ''I'' then [''I'']
      else if m = ''F'' then [''F'']
      else if m = ''LA'' then [''L'', ''A'']
      else if m = ''PA'' then [''P'', ''A'']
      else if m = ''RGB'' then [''R'', ''G'', ''B'']
      else if m = ''YCbCr'' then [''Y'', ''Cb'', ''Cr'']
      else if m = ''LAB'' then [''L'', ''A'', ''B'']
      else if m = ''HSV'' then [''H'', ''S'', ''V'']
      else if m = ''RGBA'' then [''R'', ''G'', ''B'', ''A'']
      else if m = ''RGBX'' then [''R'', ''G'', ''B'', ''X'']
      else if m = ''CMYK'' then [''C'', ''M'', ''Y'', ''K'']
      else [])"

text \<open>
  The libraries the module imports, for a model object of type \<open>'m\<close>:
  \<^item> \<open>Image_open b\<close> is \<^verbatim>\<open>Image.open(io.BytesIO(b))\<close>: it identifies the format and
    reads the header, or raises;
  \<^item> \<open>convert im m\<close> is \<^verbatim>\<open>im.convert(m)\<close>: it loads the pixel data (Pillow decodes
    lazily, so a truncated file raises here) and converts it to mode \<open>m\<close>;
  \<^item> \<open>Remover mode resize\<close> is the constructor \<^verbatim>\<open>Remover(mode=..., resize=...)\<close>;
  \<^item> \<open>process r im t\<close> is \<^verbatim>\<open>r.process(im, type=t)\<close>: the result or the exception,
    and the model object after the call;
  \<^item> \<open>save im f\<close> is \<^verbatim>\<open>im.save(buf, format=f)\<close> on a fresh \<^verbatim>\<open>io.BytesIO\<close>
    followed by \<^verbatim>\<open>buf.getvalue()\<close>.
\<close>

record 'm collaborators =
  Image_open :: "bytes \<Rightarrow> exn + bitmap"
  convert :: "bitmap \<Rightarrow> string \<Rightarrow> exn + bitmap"
  Remover :: "string \<Rightarrow> string \<Rightarrow> 'm"
  process :: "'m \<Rightarrow> bitmap \<Rightarrow> string \<Rightarrow> (exn + bitmap) \<times> 'm"
  save :: "bitmap \<Rightarrow> string \<Rightarrow> exn + bytes"

text \<open>
  The calls a run of the program makes into the libraries, in order. \<open>Infer\<close> records
  the model object the call was made on.
\<close>

datatype 'm event =
    Load string string
  | Open bytes
  | Convert bitmap string
  | Infer 'm bitmap string
  | Save bitmap string

fun is_Infer :: "'m event \<Rightarrow> bool" where
  "is_Infer (Infer r im t) = True"
| "is_Infer e = False"

fun is_Save :: "'m event \<Rightarrow> bool" where
  "is_Save (Save im f) = True"
| "is_Save e = False"


text \<open>
  An exception that leaves the handler, tagged with the statement that raised it: line 20
  (\<^verbatim>\<open>Image.open(...).convert('RGB')\<close>), line 21 (\<^verbatim>\<open>remover.process\<close>) or line 23
  (\<^verbatim>\<open>out_img.save\<close>). These are the spec's Decode, Processing and Encode Error.
\<close>

datatype failure = DecodeError exn | ProcessingError exn | EncodeError exn

text \<open>Starlette's \<^verbatim>\<open>Response\<close>; \<^verbatim>\<open>status_code\<close> defaults to 200.\<close>

record response =
  content :: bytes
  media_type :: string
  status_code :: nat

definition Response :: "bytes \<Rightarrow> string \<Rightarrow> response" where
  "Response c mt = \<lparr>content = c, media_type = mt, status_code = 200\<rparr>"

subsection \<open>The handler\<close>

text \<open>
  \<^verbatim>\<open>remove_background_endpoint\<close>, given the bytes that \<^verbatim>\<open>await file.read()\<close>
  returned and the module-level \<^verbatim>\<open>remover\<close>. It returns the response or the exception,
  the library calls it made, and \<^verbatim>\<open>remover\<close> after the request.
\<close>

definition remove_background_endpoint ::
  "'m collaborators \<Rightarrow> 'm \<Rightarrow> bytes \<Rightarrow> (failure + response) \<times> 'm event list \<times> 'm" where
  "remove_background_endpoint libs remover image_bytes =
     (case Image_open libs image_bytes of
        Inl e \<Rightarrow> (Inl (DecodeError e), [Open image_bytes], remover)
      | Inr opened \<Rightarrow>
          (case convert libs opened ''RGB'' of
             Inl e \<Rightarrow>
               (Inl (DecodeError e), [Open image_bytes, Convert opened ''RGB''], remover)
           | Inr img \<Rightarrow>
               (case process libs remover img ''rgba'' of
                  (Inl e, remover') \<Rightarrow>
                    (Inl (ProcessingError e),
                     [Open image_bytes, Convert opened ''RGB'', Infer remover img ''rgba''],
                     remover')
                | (Inr out_img, remover') \<Rightarrow>
                    (case save libs out_img ''PNG'' of
                       Inl e \<Rightarrow>
                         (Inl (EncodeError e),
                          [Open image_bytes, Convert opened ''RGB'',
                           Infer remover img ''rgba'', Save out_img ''PNG''],
                          remover')
                     | Inr buf \<Rightarrow>
                         (Inr (Response buf ''image/png''),
                          [Open image_bytes, Convert opened ''RGB'',
                           Infer remover img ''rgba'', Save out_img ''PNG''],
                          remover')))))"

text \<open>
  Line 20 on its own: the bitmap handed to the model, or the exception. An upload is
  decodable when line 20 does not raise.
\<close>

definition decode :: "'m collaborators \<Rightarrow> bytes \<Rightarrow> exn + bitmap" where
  "decode libs image_bytes =
     (case Image_open libs image_bytes of
        Inl e \<Rightarrow> Inl e
      | Inr opened \<Rightarrow> convert libs opened ''RGB'')"

definition decodable :: "'m collaborators \<Rightarrow> bytes \<Rightarrow> bool" where
  "decodable libs image_bytes = (\<not> isl (decode libs image_bytes))"

subsection \<open>The application\<close>

text \<open>
  A request as the application sees it: method, path, headers (by lower-case name) and
  the file fields of its multipart body by name (the bytes \<^verbatim>\<open>await file.read()\<close>
  returns).
\<close>

record request =
  http_method :: string
  path :: string
  headers :: "string \<rightharpoonup> string"
  form :: "string \<rightharpoonup> bytes"

text \<open>
  What becomes of a request:
  \<^item> \<open>CorsPreflight\<close>: the CORS middleware answers a preflight request itself, with
    this status and a plain-text body; the request does not reach the router;
  \<^item> \<open>BuiltinRoute\<close>: one of the routes \<^verbatim>\<open>FastAPI()\<close> installs when it is
    constructed with its default arguments answers (the OpenAPI document or a
    documentation page: status 200, JSON or HTML);
  \<^item> \<open>NoMatchingRoute\<close>: no route has this method and path; the router answers with
    an error or a redirect, no endpoint runs;
  \<^item> \<open>RequestValidationError\<close>: the route of the module matched and the required
    parameter \<^verbatim>\<open>file: UploadFile = File(...)\<close> is missing; the handler's body does not
    run;
  \<^item> \<open>UnhandledException\<close>: the handler raised; the framework answers with its
    server-error response and keeps serving;
  \<^item> \<open>Returned\<close>: the handler returned this \<^verbatim>\<open>Response\<close>, which is sent as it is.
\<close>

datatype http_result =
    CorsPreflight nat
  | BuiltinRoute string
  | NoMatchingRoute
  | RequestValidationError
  | UnhandledException failure
  | Returned response

text \<open>
  \<^verbatim>\<open>app.add_middleware(CORSMiddleware, allow_origins=["*"], allow_methods=["POST"],
  allow_headers=["*"])\<close>: a request with an \<^verbatim>\<open>Origin\<close> header, method OPTIONS and an
  \<^verbatim>\<open>Access-Control-Request-Method\<close> header is a preflight request. Every origin and
  every header is allowed, so the answer is 200 when the requested method is one of
  \<^verbatim>\<open>allow_methods\<close> and 400 otherwise. On any other request the middleware only adds
  response headers, which are not modelled.
\<close>

definition allow_methods :: "string list" where
  "allow_methods = [''POST'']"

definition preflight_response :: "request \<Rightarrow> nat option" where
  "preflight_response req =
     (case headers req ''origin'' of
        None \<Rightarrow> None
      | Some origin \<Rightarrow>
          (if http_method req = ''OPTIONS'' then
             (case headers req ''access-control-request-method'' of
                None \<Rightarrow> None
              | Some requested_method \<Rightarrow>
                  Some (if requested_method \<in> set allow_methods then 200 else 400))
           else None))"

text \<open>
  \<^verbatim>\<open>app = FastAPI()\<close>: with the default arguments the application serves its OpenAPI
  document and its documentation pages at these paths, for GET and HEAD.
\<close>

definition builtin_paths :: "string list" where
  "builtin_paths = [''/openapi.json'', ''/docs'', ''/docs/oauth2-redirect'', ''/redoc'']"

text \<open>
  The application: the middleware, the built-in routes, and
  \<^verbatim>\<open>@app.post("/api/remove-background")\<close> with the handler's signature. The result, the
  library calls made, and \<^verbatim>\<open>remover\<close> after the request.
\<close>

definition app ::
  "'m collaborators \<Rightarrow> 'm \<Rightarrow> request \<Rightarrow> http_result \<times> 'm event list \<times> 'm" where
  "app libs remover req =
     (case preflight_response req of
        Some status \<Rightarrow> (CorsPreflight status, [], remover)
      | None \<Rightarrow>
          (if (http_method req = ''GET'' \<or> http_method req = ''HEAD'') \<and>
              path req \<in> set builtin_paths then
             (BuiltinRoute (path req), [], remover)
           else if http_method req = ''POST'' \<and> path req = ''/api/remove-background'' then
             (case form req ''file'' of
                None \<Rightarrow> (RequestValidationError, [], remover)
              | Some image_bytes \<Rightarrow>
                  (case remove_background_endpoint libs remover image_bytes of
                     (Inl f, calls, remover') \<Rightarrow> (UnhandledException f, calls, remover')
                   | (Inr r, calls, remover') \<Rightarrow> (Returned r, calls, remover')))
           else (NoMatchingRoute, [], remover)))"

text \<open>
  The process serving requests one after the other. The handler is a coroutine whose
  only \<^verbatim>\<open>await\<close> is the read of the upload, so its calls into the libraries are not
  interleaved with another request's.
\<close>

fun serve ::
  "'m collaborators \<Rightarrow> 'm \<Rightarrow> request list \<Rightarrow> (http_result \<times> 'm event list) list \<times> 'm" where
  "serve libs remover [] = ([], remover)"
| "serve libs remover (req # reqs) =
     (case app libs remover req of
        (res, calls, remover') \<Rightarrow>
          (case serve libs remover' reqs of
             (rest, remover'') \<Rightarrow> ((res, calls) # rest, remover'')))"

text \<open>
  The module from import to the last request: line 15 creates \<^verbatim>\<open>remover\<close>, then the
  server runs. The result is the trace of library calls, the results of the requests,
  and \<^verbatim>\<open>remover\<close> at the end.
\<close>

definition run ::
  "'m collaborators \<Rightarrow> request list \<Rightarrow> 'm event list \<times> http_result list \<times> 'm" where
  "run libs reqs =
     (case serve libs (Remover libs ''fast'' ''dynamic'') reqs of
        (served, remover') \<Rightarrow>
          (Load ''fast'' ''dynamic'' # concat (map snd served), map fst served, remover'))"

subsection \<open>What the libraries are relied on for\<close>

text \<open>
  The handler checks nothing about what the libraries return. The properties below are
  the libraries' own contracts; a theorem that needs one names it as a hypothesis.
\<close>

text \<open>Pillow: \<^verbatim>\<open>convert(m)\<close> returns an image of mode \<open>m\<close> and of the same size.\<close>

definition convert_keeps_size :: "'m collaborators \<Rightarrow> bool" where
  "convert_keeps_size libs =
     (\<forall>im m out. convert libs im m = Inr out \<longrightarrow>
        mode out = m \<and> width out = width im \<and> height out = height im)"

text \<open>
  Pillow: converting an RGBA image to RGB keeps the first three samples of every pixel
  and drops the fourth.
\<close>

definition convert_drops_alpha :: "'m collaborators \<Rightarrow> bool" where
  "convert_drops_alpha libs =
     (\<forall>im out. mode im = ''RGBA'' \<and> convert libs im ''RGB'' = Inr out \<longrightarrow>
        out = im\<lparr>mode := ''RGB'', pixels := map (take 3) (pixels im)\<rparr>)"

text \<open>
  The model's resampling contract (spec, section 3): the result of \<^verbatim>\<open>process\<close> has the
  size of its argument.
\<close>

definition model_keeps_size :: "'m collaborators \<Rightarrow> bool" where
  "model_keeps_size libs =
     (\<forall>r im t out r'. process libs r im t = (Inr out, r') \<longrightarrow>
        width out = width im \<and> height out = height im)"

text \<open>The model: with \<^verbatim>\<open>type='rgba'\<close> the result is an RGBA image.\<close>

definition model_returns_rgba :: "'m collaborators \<Rightarrow> bool" where
  "model_returns_rgba libs =
     (\<forall>r im out r'. process libs r im ''rgba'' = (Inr out, r') \<longrightarrow> mode out = ''RGBA'')"

text \<open>The model: \<^verbatim>\<open>process\<close> leaves the model object as it was, also when it raises.\<close>

definition read_only_model :: "'m collaborators \<Rightarrow> bool" where
  "read_only_model libs = (\<forall>r im t. snd (process libs r im t) = r)"

text \<open>
  The model: what \<^verbatim>\<open>process\<close> returns or raises is a function of the image and the
  output type, whatever the state of the model object.
\<close>

definition deterministic_model :: "'m collaborators \<Rightarrow> bool" where
  "deterministic_model libs =
     (\<forall>r r' im t. fst (process libs r im t) = fst (process libs r' im t))"

text \<open>Pillow: PNG is lossless on RGBA images: the saved bytes open as the image saved.\<close>

definition png_lossless :: "'m collaborators \<Rightarrow> bool" where
  "png_lossless libs =
     (\<forall>im b. mode im = ''RGBA'' \<and> save libs im ''PNG'' = Inr b \<longrightarrow> Image_open libs b = Inr im)"

subsection \<open>A small instance of the libraries\<close>

text \<open>
  A codec for images of one pixel and a model that thresholds on brightness. It meets
  every contract above, and the theorems are run on it.
  One format is a byte 0 and three samples (an RGB pixel), the other, called PNG here, a
  byte 1 and four samples (an RGBA pixel).
\<close>

fun demo_open :: "bytes \<Rightarrow> exn + bitmap" where
  "demo_open [t, r, g, b] =
     (if t = 0 then
        Inr \<lparr>mode = ''RGB'', width = 1, height = 1, pixels = [[unat r, unat g, unat b]]\<rparr>
      else Inl ''cannot identify image file'')"
| "demo_open [t, r, g, b, a] =
     (if t = 1 then
        Inr \<lparr>mode = ''RGBA'', width = 1, height = 1,
             pixels = [[unat r, unat g, unat b, unat a]]\<rparr>
      else Inl ''cannot identify image file'')"
| "demo_open other = Inl ''cannot identify image file''"

definition demo_convert :: "bitmap \<Rightarrow> string \<Rightarrow> exn + bitmap" where
  "demo_convert im m =
     (if m = ''RGB'' \<and> mode im = ''RGB'' then Inr im
      else if m = ''RGB'' \<and> mode im = ''RGBA'' then
        Inr (im\<lparr>mode := ''RGB'', pixels := map (take 3) (pixels im)\<rparr>)
      else Inl ''conversion not supported'')"

definition demo_process ::
  "string \<times> string \<Rightarrow> bitmap \<Rightarrow> string \<Rightarrow> (exn + bitmap) \<times> (string \<times> string)" where
  "demo_process r im t =
     (if t = ''rgba'' \<and> mode im = ''RGB'' then
        Inr (im\<lparr>mode := ''RGBA'',
                 pixels := map (\<lambda>p. p @ [if sum_list p < 384 then 0 else 255]) (pixels im)\<rparr>)
      else Inl ''unsupported input'',
      r)"

definition demo_encode :: "bitmap \<Rightarrow> bytes" where
  "demo_encode im = 1 # map of_nat (concat (pixels im))"

definition demo_save :: "bitmap \<Rightarrow> string \<Rightarrow> exn + bytes" where
  "demo_save im f =
     (if f = ''PNG'' \<and> demo_open (demo_encode im) = Inr im then Inr (demo_encode im)
      else Inl ''encoder error'')"

definition demo_libs :: "(string \<times> string) collaborators" where
  "demo_libs =
     \<lparr>Image_open = demo_open, convert = demo_convert, Remover = Pair,
      process = demo_process, save = demo_save\<rparr>"

text \<open>An upload of one bright pixel, and an upload with no file field.\<close>

definition demo_upload :: bytes where
  "demo_upload = [0, 200, 100, 150]"

definition demo_request :: "bytes \<Rightarrow> request" where
  "demo_request b =
     \<lparr>http_method = ''POST'', path = ''/api/remove-background'', headers = Map.empty,
      form = [''file'' \<mapsto> b]\<rparr>"

definition demo_request_no_file :: request where
  "demo_request_no_file =
     \<lparr>http_method = ''POST'', path = ''/api/remove-background'', headers = Map.empty,
      form = Map.empty\<rparr>"

text \<open>A request for a documentation page, and a preflight request of a browser.\<close>

definition docs_request :: request where
  "docs_request =
     \<lparr>http_method = ''GET'', path = ''/docs'', headers = Map.empty, form = Map.empty\<rparr>"

definition preflight_request :: request where
  "preflight_request =
     \<lparr>http_method = ''OPTIONS'', path = ''/api/remove-background'',
      headers = [''origin'' \<mapsto> ''http://localhost:3000'',
                 ''access-control-request-method'' \<mapsto> ''POST''],
      form = Map.empty\<rparr>"

subsection \<open>Instances with a model that fails\<close>

text \<open>
  The same codec with a model that cannot work on small images and is otherwise the
  model above. This is what a model that first rounds each side to a multiple of 32, as
  \<^verbatim>\<open>resize='dynamic'\<close> does, is like: a side of 16 pixels or less becomes 0 and the
  call raises. It meets every contract of the preceding subsection.
\<close>

definition small_image_process ::
  "string \<times> string \<Rightarrow> bitmap \<Rightarrow> string \<Rightarrow> (exn + bitmap) \<times> (string \<times> string)" where
  "small_image_process r im t =
     (if width im \<le> 16 \<or> height im \<le> 16 then (Inl ''height and width must be > 0'', r)
      else demo_process r im t)"

definition small_image_libs :: "(string \<times> string) collaborators" where
  "small_image_libs = demo_libs\<lparr>process := small_image_process\<rparr>"

text \<open>
  Models whose object has state: it counts the calls of \<^verbatim>\<open>process\<close>. In the first
  instance the model fails on small images as above; in the second the model works and
  the encoder always raises.
\<close>

definition counting :: "(bitmap \<Rightarrow> string \<Rightarrow> exn + bitmap) \<Rightarrow> nat \<Rightarrow> bitmap \<Rightarrow> string \<Rightarrow> (exn + bitmap) \<times> nat" where
  "counting f n im t = (f im t, Suc n)"

definition counting_libs :: "nat collaborators" where
  "counting_libs =
     \<lparr>Image_open = demo_open, convert = demo_convert, Remover = (\<lambda>m r. 0),
      process = counting (\<lambda>im t. fst (small_image_process (''fast'', ''dynamic'') im t)),
      save = demo_save\<rparr>"

definition broken_encoder_libs :: "nat collaborators" where
  "broken_encoder_libs =
     \<lparr>Image_open = demo_open, convert = demo_convert, Remover = (\<lambda>m r. 0),
      process = counting (\<lambda>im t. fst (demo_process (''fast'', ''dynamic'') im t)),
      save = (\<lambda>im f. Inl ''encoder error'')\<rparr>"

section \<open>Properties\<close>

lemma Response_simps:
  "content (Response c mt) = c" "media_type (Response c mt) = mt"
  "status_code (Response c mt) = 200"
  by (simp_all add: Response_def)

subsection \<open>The small instance meets the contracts\<close>

lemma demo_convert_keeps_size: "convert_keeps_size demo_libs"
  by (auto simp: convert_keeps_size_def demo_libs_def demo_convert_def split: if_splits)

lemma demo_convert_drops_alpha: "convert_drops_alpha demo_libs"
  by (auto simp: convert_drops_alpha_def demo_libs_def demo_convert_def split: if_splits)

lemma demo_model_keeps_size: "model_keeps_size demo_libs"
  by (auto simp: model_keeps_size_def demo_libs_def demo_process_def split: if_splits)

lemma demo_model_returns_rgba: "model_returns_rgba demo_libs"
  by (auto simp: model_returns_rgba_def demo_libs_def demo_process_def split: if_splits)

lemma demo_read_only_model: "read_only_model demo_libs"
  by (simp add: read_only_model_def demo_libs_def demo_process_def)

lemma demo_deterministic_model: "deterministic_model demo_libs"
  by (simp add: deterministic_model_def demo_libs_def demo_process_def)

lemma demo_png_lossless: "png_lossless demo_libs"
  by (auto simp: png_lossless_def demo_libs_def demo_save_def split: if_splits)

lemmas demo_defs =
  demo_libs_def demo_convert_def demo_process_def demo_save_def demo_encode_def
  demo_upload_def demo_request_def demo_request_no_file_def

lemma demo_endpoint_upload:
  "remove_background_endpoint demo_libs (''fast'', ''dynamic'') demo_upload =
     (Inr (Response [1, 200, 100, 150, 255] ''image/png''),
      [Open demo_upload,
       Convert \<lparr>mode = ''RGB'', width = 1, height = 1, pixels = [[200, 100, 150]]\<rparr> ''RGB'',
       Infer (''fast'', ''dynamic'')
         \<lparr>mode = ''RGB'', width = 1, height = 1, pixels = [[200, 100, 150]]\<rparr> ''rgba'',
       Save \<lparr>mode = ''RGBA'', width = 1, height = 1, pixels = [[200, 100, 150, 255]]\<rparr> ''PNG''],
      (''fast'', ''dynamic''))"
  by (simp add: remove_background_endpoint_def demo_defs)

lemma demo_endpoint_empty:
  "remove_background_endpoint demo_libs r [] =
     (Inl (DecodeError ''cannot identify image file''), [Open []], r)"
  by (simp add: remove_background_endpoint_def demo_defs)

subsection \<open>The handler, case by case\<close>

text \<open>The five ways through the handler.\<close>

lemma endpoint_result:
  "remove_background_endpoint libs remover image_bytes = (res, calls, remover') \<Longrightarrow>
   (\<exists>e. Image_open libs image_bytes = Inl e \<and> res = Inl (DecodeError e) \<and>
        calls = [Open image_bytes] \<and> remover' = remover) \<or>
   (\<exists>opened e. Image_open libs image_bytes = Inr opened \<and> convert libs opened ''RGB'' = Inl e \<and>
        res = Inl (DecodeError e) \<and> calls = [Open image_bytes, Convert opened ''RGB''] \<and>
        remover' = remover) \<or>
   (\<exists>opened img e. Image_open libs image_bytes = Inr opened \<and>
        convert libs opened ''RGB'' = Inr img \<and>
        process libs remover img ''rgba'' = (Inl e, remover') \<and>
        res = Inl (ProcessingError e) \<and>
        calls = [Open image_bytes, Convert opened ''RGB'', Infer remover img ''rgba'']) \<or>
   (\<exists>opened img out_img e. Image_open libs image_bytes = Inr opened \<and>
        convert libs opened ''RGB'' = Inr img \<and>
        process libs remover img ''rgba'' = (Inr out_img, remover') \<and>
        save libs out_img ''PNG'' = Inl e \<and> res = Inl (EncodeError e) \<and>
        calls = [Open image_bytes, Convert opened ''RGB'', Infer remover img ''rgba'',
                 Save out_img ''PNG'']) \<or>
   (\<exists>opened img out_img buf. Image_open libs image_bytes = Inr opened \<and>
        convert libs opened ''RGB'' = Inr img \<and>
        process libs remover img ''rgba'' = (Inr out_img, remover') \<and>
        save libs out_img ''PNG'' = Inr buf \<and> res = Inr (Response buf ''image/png'') \<and>
        calls = [Open image_bytes, Convert opened ''RGB'', Infer remover img ''rgba'',
                 Save out_img ''PNG''])"
  by (auto simp: remove_background_endpoint_def split: sum.splits prod.splits)

lemma endpoint_success:
  assumes "remove_background_endpoint libs remover image_bytes = (Inr r, calls, remover')"
  obtains opened img out_img where
    "Image_open libs image_bytes = Inr opened" "convert libs opened ''RGB'' = Inr img"
    "process libs remover img ''rgba'' = (Inr out_img, remover')"
    "save libs out_img ''PNG'' = Inr (content r)" "r = Response (content r) ''image/png''"
    "calls = [Open image_bytes, Convert opened ''RGB'', Infer remover img ''rgba'',
              Save out_img ''PNG'']"
  using endpoint_result [OF assms] by (auto simp: Response_simps)

text \<open>The same in terms of line 20 as a whole.\<close>

lemma endpoint_decoded:
  assumes "decode libs image_bytes = Inr img"
  shows "fst (remove_background_endpoint libs remover image_bytes) =
     (case fst (process libs remover img ''rgba'') of
        Inl e \<Rightarrow> Inl (ProcessingError e)
      | Inr out_img \<Rightarrow>
          (case save libs out_img ''PNG'' of
             Inl e \<Rightarrow> Inl (EncodeError e)
           | Inr buf \<Rightarrow> Inr (Response buf ''image/png'')))"
  using assms
  by (auto simp: remove_background_endpoint_def decode_def split: sum.splits prod.splits)

lemma endpoint_not_decoded:
  assumes "decode libs image_bytes = Inl e"
  shows "\<exists>calls. remove_background_endpoint libs remover image_bytes =
           (Inl (DecodeError e), calls, remover) \<and>
           list_all (\<lambda>ev. \<not> is_Infer ev \<and> \<not> is_Save ev) calls"
  using assms
  by (auto simp: remove_background_endpoint_def decode_def split: sum.splits)

subsection \<open>Size of the output\<close>

text \<open>
  Claim C1. For every upload that opens as an image \<open>I\<close> and for which the handler
  returns a response, the image the handler saved (the model's output) has the width and
  the height of \<open>I\<close>, and the PNG in the response body opens as that image. The handler
  resizes nothing itself: the sizes agree because \<^verbatim>\<open>convert\<close> and the model keep the
  size, which are the libraries' contracts (the spec assigns the resampling contract to
  the model); that the body opens as the saved image is Pillow's lossless PNG of an RGBA
  image.
\<close>

theorem output_size_equals_input_size:
  assumes "convert_keeps_size libs" and "model_keeps_size libs"
    and "Image_open libs image_bytes = Inr I"
    and "remove_background_endpoint libs remover image_bytes = (Inr r, calls, remover')"
  shows "\<exists>out_img. Save out_img ''PNG'' \<in> set calls \<and>
           save libs out_img ''PNG'' = Inr (content r) \<and>
           width out_img = width I \<and> height out_img = height I \<and>
           (model_returns_rgba libs \<and> png_lossless libs \<longrightarrow>
              Image_open libs (content r) = Inr out_img)"
proof -
  from assms(4) obtain opened img out_img where
    op: "Image_open libs image_bytes = Inr opened" and
    cv: "convert libs opened ''RGB'' = Inr img" and
    pr: "process libs remover img ''rgba'' = (Inr out_img, remover')" and
    sv: "save libs out_img ''PNG'' = Inr (content r)" and
    cs: "calls = [Open image_bytes, Convert opened ''RGB'', Infer remover img ''rgba'',
                  Save out_img ''PNG'']"
    by (rule endpoint_success)
  from op assms(3) have "opened = I" by simp
  with cv assms(1) have "width img = width I \<and> height img = height I"
    unfolding convert_keeps_size_def by blast
  moreover from pr assms(2) have "width out_img = width img \<and> height out_img = height img"
    unfolding model_keeps_size_def by blast
  moreover have "Image_open libs (content r) = Inr out_img"
    if "model_returns_rgba libs" and "png_lossless libs"
  proof -
    from that(1) pr have "mode out_img = ''RGBA''"
      unfolding model_returns_rgba_def by blast
    with that(2) sv show ?thesis
      unfolding png_lossless_def by blast
  qed
  ultimately show ?thesis using sv cs by auto
qed

theorem output_size_equals_input_size_witness:
  "\<exists>out_img. save demo_libs out_img ''PNG'' = Inr [1, 200, 100, 150, 255] \<and>
      width out_img = 1 \<and> height out_img = 1 \<and>
      Image_open demo_libs [1, 200, 100, 150, 255] = Inr out_img"
proof -
  have op: "Image_open demo_libs demo_upload =
      Inr \<lparr>mode = ''RGB'', width = 1, height = 1, pixels = [[200, 100, 150]]\<rparr>"
    by (simp add: demo_defs)
  show ?thesis
    using output_size_equals_input_size [OF demo_convert_keeps_size demo_model_keeps_size
        op demo_endpoint_upload]
      demo_model_returns_rgba demo_png_lossless
    by (auto simp: Response_simps)
qed

subsection \<open>The instance with the small-image model meets the contracts\<close>

lemma small_image_convert_keeps_size: "convert_keeps_size small_image_libs"
  using demo_convert_keeps_size
  by (simp add: convert_keeps_size_def small_image_libs_def demo_libs_def)

lemma small_image_model_keeps_size: "model_keeps_size small_image_libs"
  by (auto simp: model_keeps_size_def small_image_libs_def demo_libs_def
      small_image_process_def demo_process_def split: if_splits)

lemma small_image_model_returns_rgba: "model_returns_rgba small_image_libs"
  by (auto simp: model_returns_rgba_def small_image_libs_def demo_libs_def
      small_image_process_def demo_process_def split: if_splits)

lemma small_image_read_only_model: "read_only_model small_image_libs"
  by (simp add: read_only_model_def small_image_libs_def demo_libs_def
      small_image_process_def demo_process_def)

lemma small_image_deterministic_model: "deterministic_model small_image_libs"
  by (simp add: deterministic_model_def small_image_libs_def demo_libs_def
      small_image_process_def demo_process_def)

lemma small_image_png_lossless: "png_lossless small_image_libs"
  using demo_png_lossless
  by (simp add: png_lossless_def small_image_libs_def demo_libs_def)

lemma small_image_convert_drops_alpha: "convert_drops_alpha small_image_libs"
  using demo_convert_drops_alpha
  by (simp add: convert_drops_alpha_def small_image_libs_def demo_libs_def)

lemmas failing_defs =
  small_image_libs_def small_image_process_def counting_libs_def broken_encoder_libs_def
  counting_def

text \<open>The one-pixel upload on the instances whose model or encoder fails.\<close>

lemma small_image_decode_upload:
  "decode small_image_libs demo_upload =
     Inr \<lparr>mode = ''RGB'', width = 1, height = 1, pixels = [[200, 100, 150]]\<rparr>"
  by (simp add: decode_def failing_defs demo_defs)

lemma small_image_endpoint_upload:
  "remove_background_endpoint small_image_libs (''fast'', ''dynamic'') demo_upload =
     (Inl (ProcessingError ''height and width must be > 0''),
      [Open demo_upload,
       Convert \<lparr>mode = ''RGB'', width = 1, height = 1, pixels = [[200, 100, 150]]\<rparr> ''RGB'',
       Infer (''fast'', ''dynamic'')
         \<lparr>mode = ''RGB'', width = 1, height = 1, pixels = [[200, 100, 150]]\<rparr> ''rgba''],
      (''fast'', ''dynamic''))"
  by (simp add: remove_background_endpoint_def failing_defs demo_defs)



subsection \<open>Requests to the route of the module\<close>

text \<open>
  A POST is never a preflight request and no built-in route takes a POST, so a POST to
  \<^verbatim>\<open>/api/remove-background\<close> always reaches the validation of the \<^verbatim>\<open>file\<close> parameter;
  no other request reaches the handler.
\<close>

lemma post_is_not_preflight:
  "http_method req = ''POST'' \<Longrightarrow> preflight_response req = None"
  by (simp add: preflight_response_def split: option.splits)

lemma app_post:
  assumes "http_method req = ''POST''" and "path req = ''/api/remove-background''"
  shows "app libs remover req =
     (case form req ''file'' of
        None \<Rightarrow> (RequestValidationError, [], remover)
      | Some image_bytes \<Rightarrow>
          (case remove_background_endpoint libs remover image_bytes of
             (Inl f, calls, remover') \<Rightarrow> (UnhandledException f, calls, remover')
           | (Inr r, calls, remover') \<Rightarrow> (Returned r, calls, remover')))"
  using assms by (simp add: app_def post_is_not_preflight)

lemma app_not_post:
  assumes "http_method req \<noteq> ''POST'' \<or> path req \<noteq> ''/api/remove-background''"
  shows "\<exists>res. app libs remover req = (res, [], remover) \<and>
           res \<noteq> RequestValidationError \<and> (\<forall>f. res \<noteq> UnhandledException f) \<and>
           (\<forall>r. res \<noteq> Returned r)"
  using assms by (auto simp: app_def split: option.splits)

lemma demo_request_simps:
  "http_method (demo_request b) = ''POST''"
  "path (demo_request b) = ''/api/remove-background''"
  "form (demo_request b) ''file'' = Some b"
  by (simp_all add: demo_request_def)


subsection \<open>Form of the output\<close>

text \<open>
  Claim C2 as stated, that every decodable upload is answered with a PNG, does not hold:
  with a model that raises on small images and otherwise honours every contract, the
  decodable one-pixel upload ends in a Processing Error and no bytes are returned.
\<close>

theorem decodable_upload_without_png_counterexample:
  "convert_keeps_size small_image_libs \<and> model_keeps_size small_image_libs \<and>
   model_returns_rgba small_image_libs \<and> read_only_model small_image_libs \<and>
   deterministic_model small_image_libs \<and> png_lossless small_image_libs \<and>
   decodable small_image_libs demo_upload \<and>
   fst (remove_background_endpoint small_image_libs (''fast'', ''dynamic'') demo_upload) =
     Inl (ProcessingError ''height and width must be > 0'') \<and>
   fst (app small_image_libs (''fast'', ''dynamic'') (demo_request demo_upload)) =
     UnhandledException (ProcessingError ''height and width must be > 0'')"
  by (simp add: small_image_convert_keeps_size small_image_model_keeps_size
      small_image_model_returns_rgba small_image_read_only_model
      small_image_deterministic_model small_image_png_lossless
      decodable_def small_image_decode_upload small_image_endpoint_upload
      app_post demo_request_simps)

text \<open>
  Claim C2, amended. For every upload that line 20 decodes to an image \<open>img\<close>, the request
  ends in one of three ways, decided by the libraries alone: the model raised on \<open>img\<close>
  (Processing Error), the PNG encoder raised on the model's output (Encode Error), or
  the handler returned a response. In the last case the body is what \<^verbatim>\<open>save\<close> with
  format PNG produced from the model's output for \<open>img\<close> with \<^verbatim>\<open>type='rgba'\<close>, untouched
  by the handler, and the media type is \<^verbatim>\<open>image/png\<close>. If the model honours its contract for
  \<^verbatim>\<open>type='rgba'\<close>, that output has the four bands R, G, B, A; if moreover PNG is
  lossless, the body opens as exactly that image, so its alpha band is the one the model
  computed.
\<close>

theorem response_is_rgba_png:
  assumes "decode libs image_bytes = Inr img"
  shows "case fst (remove_background_endpoint libs remover image_bytes) of
           Inl f \<Rightarrow>
             (\<exists>e. f = ProcessingError e \<and> fst (process libs remover img ''rgba'') = Inl e) \<or>
             (\<exists>e out_img. f = EncodeError e \<and>
                fst (process libs remover img ''rgba'') = Inr out_img \<and>
                save libs out_img ''PNG'' = Inl e)
         | Inr r \<Rightarrow>
             (\<exists>out_img. fst (process libs remover img ''rgba'') = Inr out_img \<and>
                save libs out_img ''PNG'' = Inr (content r) \<and>
                media_type r = ''image/png'' \<and>
                (model_returns_rgba libs \<longrightarrow>
                   mode out_img = ''RGBA'' \<and>
                   getbands (mode out_img) = [''R'', ''G'', ''B'', ''A''] \<and>
                   (png_lossless libs \<longrightarrow> Image_open libs (content r) = Inr out_img)))"
proof (cases "process libs remover img ''rgba''")
  case (Pair res remover')
  show ?thesis
  proof (cases res)
    case (Inl e)
    with Pair assms show ?thesis
      by (simp add: endpoint_decoded)
  next
    case (Inr out_img)
    have m: "mode out_img = ''RGBA''" if "model_returns_rgba libs"
      using that Pair Inr unfolding model_returns_rgba_def by blast
    show ?thesis
    proof (cases "save libs out_img ''PNG''")
      case (Inl e)
      with Pair Inr assms show ?thesis
        by (simp add: endpoint_decoded)
    next
      case save: (Inr buf)
      have "Image_open libs buf = Inr out_img"
        if "model_returns_rgba libs" and "png_lossless libs"
        using m [OF that(1)] that(2) save unfolding png_lossless_def by blast
      with Pair Inr save m assms show ?thesis
        by (simp add: endpoint_decoded Response_simps getbands_def)
    qed
  qed
qed

theorem response_is_rgba_png_witness:
  "decode demo_libs demo_upload =
     Inr \<lparr>mode = ''RGB'', width = 1, height = 1, pixels = [[200, 100, 150]]\<rparr> \<and>
   (\<exists>r out_img. fst (remove_background_endpoint demo_libs (''fast'', ''dynamic'') demo_upload) = Inr r \<and>
      save demo_libs out_img ''PNG'' = Inr (content r) \<and>
      Image_open demo_libs (content r) = Inr out_img \<and>
      getbands (mode out_img) = [''R'', ''G'', ''B'', ''A''] \<and>
      pixels out_img = [[200, 100, 150, 255]]) \<and>
   decode small_image_libs demo_upload =
     Inr \<lparr>mode = ''RGB'', width = 1, height = 1, pixels = [[200, 100, 150]]\<rparr> \<and>
   fst (process small_image_libs (''fast'', ''dynamic'')
     \<lparr>mode = ''RGB'', width = 1, height = 1, pixels = [[200, 100, 150]]\<rparr> ''rgba'') =
     Inl ''height and width must be > 0''"
proof -
  have dec: "decode demo_libs demo_upload =
      Inr \<lparr>mode = ''RGB'', width = 1, height = 1, pixels = [[200, 100, 150]]\<rparr>"
    by (simp add: decode_def demo_defs)
  have ok: "\<exists>r out_img.
      fst (remove_background_endpoint demo_libs (''fast'', ''dynamic'') demo_upload) = Inr r \<and>
      save demo_libs out_img ''PNG'' = Inr (content r) \<and>
      Image_open demo_libs (content r) = Inr out_img \<and>
      getbands (mode out_img) = [''R'', ''G'', ''B'', ''A''] \<and>
      pixels out_img = [[200, 100, 150, 255]]"
    using response_is_rgba_png [OF dec, of "(''fast'', ''dynamic'')"]
      demo_model_returns_rgba demo_png_lossless
    by (simp add: demo_endpoint_upload) (simp add: demo_defs)
  have failed: "fst (process small_image_libs (''fast'', ''dynamic'')
      \<lparr>mode = ''RGB'', width = 1, height = 1, pixels = [[200, 100, 150]]\<rparr> ''rgba'') =
      Inl ''height and width must be > 0''"
    using response_is_rgba_png [OF small_image_decode_upload, of "(''fast'', ''dynamic'')"]
    by (simp add: small_image_endpoint_upload)
  from dec ok small_image_decode_upload failed show ?thesis
    by (intro conjI)
qed

subsection \<open>Uploads that do not decode\<close>

text \<open>
  Claim C3. For a POST to the route with a file field: when the bytes are not decodable
  (line 20 raises, be it \<^verbatim>\<open>Image.open\<close> or the load inside \<^verbatim>\<open>convert\<close>), the request
  ends with the Decode Error as an unhandled exception, which the framework answers with
  a failed response; neither the model nor the encoder was called, so there are no PNG
  bytes; \<^verbatim>\<open>remover\<close> is unchanged and the process goes on to serve the requests that
  follow. When the bytes are decodable, the request does not end with a Decode Error.
\<close>

theorem decode_error_iff_not_decodable:
  assumes "http_method req = ''POST''" and "path req = ''/api/remove-background''"
    and "form req ''file'' = Some image_bytes"
  shows "(\<not> decodable libs image_bytes \<longrightarrow>
            (\<exists>e calls. app libs remover req = (UnhandledException (DecodeError e), calls, remover) \<and>
               list_all (\<lambda>ev. \<not> is_Infer ev \<and> \<not> is_Save ev) calls \<and>
               (\<forall>reqs. serve libs remover (req # reqs) =
                  ((UnhandledException (DecodeError e), calls) # fst (serve libs remover reqs),
                   snd (serve libs remover reqs))))) \<and>
         (decodable libs image_bytes \<longrightarrow>
            (\<forall>e. fst (app libs remover req) \<noteq> UnhandledException (DecodeError e)))"
proof (intro conjI impI)
  assume "\<not> decodable libs image_bytes"
  then obtain e where "decode libs image_bytes = Inl e"
    by (cases "decode libs image_bytes") (simp_all add: decodable_def)
  from endpoint_not_decoded [OF this, of remover] obtain calls where
    ep: "remove_background_endpoint libs remover image_bytes =
           (Inl (DecodeError e), calls, remover)" and
    cs: "list_all (\<lambda>ev. \<not> is_Infer ev \<and> \<not> is_Save ev) calls"
    by blast
  from ep assms have a: "app libs remover req = (UnhandledException (DecodeError e), calls, remover)"
    by (simp add: app_post)
  then have "serve libs remover (req # reqs) =
      ((UnhandledException (DecodeError e), calls) # fst (serve libs remover reqs),
       snd (serve libs remover reqs))" for reqs
    by (simp split: prod.splits)
  with a cs show "\<exists>e calls. app libs remover req = (UnhandledException (DecodeError e), calls, remover) \<and>
               list_all (\<lambda>ev. \<not> is_Infer ev \<and> \<not> is_Save ev) calls \<and>
               (\<forall>reqs. serve libs remover (req # reqs) =
                  ((UnhandledException (DecodeError e), calls) # fst (serve libs remover reqs),
                   snd (serve libs remover reqs)))"
    by blast
next
  assume "decodable libs image_bytes"
  then obtain img where "decode libs image_bytes = Inr img"
    by (cases "decode libs image_bytes") (simp_all add: decodable_def)
  from endpoint_decoded [OF this, of remover]
  have "\<forall>e. fst (remove_background_endpoint libs remover image_bytes) \<noteq> Inl (DecodeError e)"
    by (auto split: sum.splits)
  with assms show "\<forall>e. fst (app libs remover req) \<noteq> UnhandledException (DecodeError e)"
    by (auto simp: app_post split: prod.splits sum.splits)
qed

theorem decode_error_iff_not_decodable_witness:
  "\<not> decodable demo_libs [] \<and> decodable demo_libs demo_upload \<and>
   app demo_libs (''fast'', ''dynamic'') (demo_request []) =
     (UnhandledException (DecodeError ''cannot identify image file''), [Open []],
      (''fast'', ''dynamic'')) \<and>
   fst (serve demo_libs (''fast'', ''dynamic'') [demo_request [], demo_request demo_upload]) =
     [(UnhandledException (DecodeError ''cannot identify image file''), [Open []]),
      (Returned (Response [1, 200, 100, 150, 255] ''image/png''),
       fst (snd (remove_background_endpoint demo_libs (''fast'', ''dynamic'') demo_upload)))] \<and>
   (\<exists>r. fst (app demo_libs (''fast'', ''dynamic'') (demo_request demo_upload)) = Returned r)"
proof -
  note m = demo_request_simps(1) and p = demo_request_simps(2) and f = demo_request_simps(3)
  have n: "\<not> decodable demo_libs []" and d: "decodable demo_libs demo_upload"
    by (simp_all add: decodable_def decode_def demo_defs)
  have a: "app demo_libs (''fast'', ''dynamic'') (demo_request demo_upload) =
      (Returned (Response [1, 200, 100, 150, 255] ''image/png''),
       fst (snd (remove_background_endpoint demo_libs (''fast'', ''dynamic'') demo_upload)),
       (''fast'', ''dynamic''))"
    by (simp add: app_post m p f demo_endpoint_upload)
  show ?thesis
    using decode_error_iff_not_decodable [OF m p f, of demo_libs "[]" "(''fast'', ''dynamic'')"]
      decode_error_iff_not_decodable [OF m p f, of demo_libs demo_upload "(''fast'', ''dynamic'')"]
      n d a
    by (auto simp: app_post m p f demo_endpoint_empty)
qed


subsection \<open>What the model is given\<close>

text \<open>
  Claim C4. For every upload that opens as \<open>opened\<close> and that \<^verbatim>\<open>convert('RGB')\<close> turns into
  \<open>img\<close>, the handler's outcome is computed from the call of the model on \<open>img\<close> with
  \<^verbatim>\<open>type='rgba'\<close>: what the handler returns or raises is determined by what that call
  returns or raises, and \<^verbatim>\<open>remover\<close> afterwards is the model object as that call left
  it. The model is consulted on no other argument: replacing \<^verbatim>\<open>process\<close> by any function
  that agrees with it on \<open>(remover, img, 'rgba')\<close> changes nothing of the handler's
  result, calls or state. So the model's argument is the RGB conversion of the upload
  with nothing done to it in between; by Pillow's contract for \<^verbatim>\<open>convert\<close> it has mode
  RGB, that is exactly the three bands R, G, B.
\<close>

theorem model_input_is_rgb_conversion:
  assumes "Image_open libs image_bytes = Inr opened"
    and "convert libs opened ''RGB'' = Inr img"
  shows "fst (remove_background_endpoint libs remover image_bytes) =
           (case fst (process libs remover img ''rgba'') of
              Inl e \<Rightarrow> Inl (ProcessingError e)
            | Inr out_img \<Rightarrow>
                (case save libs out_img ''PNG'' of
                   Inl e \<Rightarrow> Inl (EncodeError e)
                 | Inr buf \<Rightarrow> Inr (Response buf ''image/png''))) \<and>
         snd (snd (remove_background_endpoint libs remover image_bytes)) =
           snd (process libs remover img ''rgba'') \<and>
         (\<forall>p. p remover img ''rgba'' = process libs remover img ''rgba'' \<longrightarrow>
            remove_background_endpoint (libs\<lparr>process := p\<rparr>) remover image_bytes =
            remove_background_endpoint libs remover image_bytes) \<and>
         (convert_keeps_size libs \<longrightarrow>
            mode img = ''RGB'' \<and> getbands (mode img) = [''R'', ''G'', ''B''])"
proof (intro conjI allI impI)
  from assms have dec: "decode libs image_bytes = Inr img"
    by (simp add: decode_def)
  then show "fst (remove_background_endpoint libs remover image_bytes) =
      (case fst (process libs remover img ''rgba'') of
         Inl e \<Rightarrow> Inl (ProcessingError e)
       | Inr out_img \<Rightarrow>
           (case save libs out_img ''PNG'' of
              Inl e \<Rightarrow> Inl (EncodeError e)
            | Inr buf \<Rightarrow> Inr (Response buf ''image/png'')))"
    by (rule endpoint_decoded)
  from assms show "snd (snd (remove_background_endpoint libs remover image_bytes)) =
      snd (process libs remover img ''rgba'')"
    by (auto simp: remove_background_endpoint_def split: sum.splits prod.splits)
next
  fix p
  assume "p remover img ''rgba'' = process libs remover img ''rgba''"
  with assms show "remove_background_endpoint (libs\<lparr>process := p\<rparr>) remover image_bytes =
      remove_background_endpoint libs remover image_bytes"
    by (simp add: remove_background_endpoint_def split: prod.splits sum.splits)
next
  assume "convert_keeps_size libs"
  with assms(2) have "mode img = ''RGB''"
    unfolding convert_keeps_size_def by blast
  then show "mode img = ''RGB''" and "getbands (mode img) = [''R'', ''G'', ''B'']"
    by (simp_all add: getbands_def)
qed

theorem model_input_is_rgb_conversion_witness:
  "Image_open demo_libs [1, 10, 20, 30, 40] =
     Inr \<lparr>mode = ''RGBA'', width = 1, height = 1, pixels = [[10, 20, 30, 40]]\<rparr> \<and>
   convert demo_libs \<lparr>mode = ''RGBA'', width = 1, height = 1, pixels = [[10, 20, 30, 40]]\<rparr> ''RGB'' =
     Inr \<lparr>mode = ''RGB'', width = 1, height = 1, pixels = [[10, 20, 30]]\<rparr> \<and>
   fst (remove_background_endpoint demo_libs (''fast'', ''dynamic'') [1, 10, 20, 30, 40]) =
     Inr (Response [1, 10, 20, 30, 0] ''image/png'') \<and>
   remove_background_endpoint
     (demo_libs\<lparr>process := (\<lambda>r im t.
        if im = \<lparr>mode = ''RGB'', width = 1, height = 1, pixels = [[10, 20, 30]]\<rparr> \<and> t = ''rgba''
        then demo_process r im t else (Inl ''not the converted upload'', r))\<rparr>)
     (''fast'', ''dynamic'') [1, 10, 20, 30, 40] =
   remove_background_endpoint demo_libs (''fast'', ''dynamic'') [1, 10, 20, 30, 40]"
proof -
  have op: "Image_open demo_libs [1, 10, 20, 30, 40] =
      Inr \<lparr>mode = ''RGBA'', width = 1, height = 1, pixels = [[10, 20, 30, 40]]\<rparr>"
    by (simp add: demo_defs)
  have cv: "convert demo_libs
        \<lparr>mode = ''RGBA'', width = 1, height = 1, pixels = [[10, 20, 30, 40]]\<rparr> ''RGB'' =
      Inr \<lparr>mode = ''RGB'', width = 1, height = 1, pixels = [[10, 20, 30]]\<rparr>"
    by (simp add: demo_defs)
  have pr: "process demo_libs = demo_process"
    by (simp add: demo_libs_def)
  note inst = model_input_is_rgb_conversion [OF op cv, of "(''fast'', ''dynamic'')"]
  have "fst (remove_background_endpoint demo_libs (''fast'', ''dynamic'')
      [1, 10, 20, 30, 40]) = Inr (Response [1, 10, 20, 30, 0] ''image/png'')"
    using inst [THEN conjunct1] by (simp add: demo_defs)
  moreover have "remove_background_endpoint
     (demo_libs\<lparr>process := (\<lambda>r im t.
        if im = \<lparr>mode = ''RGB'', width = 1, height = 1, pixels = [[10, 20, 30]]\<rparr> \<and> t = ''rgba''
        then demo_process r im t else (Inl ''not the converted upload'', r))\<rparr>)
     (''fast'', ''dynamic'') [1, 10, 20, 30, 40] =
     remove_background_endpoint demo_libs (''fast'', ''dynamic'') [1, 10, 20, 30, 40]"
    by (rule inst [THEN conjunct2, THEN conjunct2, THEN conjunct1, rule_format])
      (simp add: pr)
  ultimately show ?thesis
    using op cv by (intro conjI)
qed

subsection \<open>The HTTP surface\<close>

text \<open>
  Claim C5 as stated, that the service exposes exactly one route, does not hold: a GET of
  \<^verbatim>\<open>/docs\<close> is answered by a route that \<^verbatim>\<open>FastAPI()\<close> installed by default, and a
  preflight OPTIONS request is answered by the CORS middleware, in both cases without
  the handler and with a body that is not a PNG.
\<close>

theorem documentation_route_counterexample:
  "http_method docs_request = ''GET'' \<and> path docs_request = ''/docs'' \<and>
   app demo_libs (''fast'', ''dynamic'') docs_request =
     (BuiltinRoute ''/docs'', [], (''fast'', ''dynamic'')) \<and>
   app demo_libs (''fast'', ''dynamic'') preflight_request =
     (CorsPreflight 200, [], (''fast'', ''dynamic''))"
  by (simp add: app_def docs_request_def preflight_request_def preflight_response_def
      builtin_paths_def allow_methods_def)

text \<open>
  Claim C5, amended. A request is answered
  \<^item> by the CORS middleware exactly when it is a preflight request;
  \<^item> by a default route of the framework exactly when it is not a preflight request and
    is a GET or HEAD of \<^verbatim>\<open>/openapi.json\<close>, \<^verbatim>\<open>/docs\<close>, \<^verbatim>\<open>/docs/oauth2-redirect\<close> or
    \<^verbatim>\<open>/redoc\<close>;
  \<^item> by the one route the module registers (with a validation error, an exception of the
    handler or the handler's response) exactly when it is a POST to
    \<^verbatim>\<open>/api/remove-background\<close>.
  Whenever the handler returns, the response has status 200 and media type
  \<^verbatim>\<open>image/png\<close>, the request carried a field \<^verbatim>\<open>file\<close> whose bytes decoded, and the body
  is the bytes \<^verbatim>\<open>save\<close> produced with format PNG from the model's output.
\<close>

theorem routes_and_png_response:
  "((\<exists>status. fst (app libs remover req) = CorsPreflight status) \<longleftrightarrow>
      preflight_response req \<noteq> None) \<and>
   ((\<exists>p. fst (app libs remover req) = BuiltinRoute p) \<longleftrightarrow>
      preflight_response req = None \<and>
      (http_method req = ''GET'' \<or> http_method req = ''HEAD'') \<and>
      path req \<in> set builtin_paths) \<and>
   (fst (app libs remover req) = RequestValidationError \<or>
    (\<exists>f. fst (app libs remover req) = UnhandledException f) \<or>
    (\<exists>r. fst (app libs remover req) = Returned r) \<longleftrightarrow>
      http_method req = ''POST'' \<and> path req = ''/api/remove-background'') \<and>
   (\<forall>r. fst (app libs remover req) = Returned r \<longrightarrow>
      status_code r = 200 \<and> media_type r = ''image/png'' \<and>
      (\<exists>image_bytes img out_img. form req ''file'' = Some image_bytes \<and>
         decode libs image_bytes = Inr img \<and>
         fst (process libs remover img ''rgba'') = Inr out_img \<and>
         save libs out_img ''PNG'' = Inr (content r)))"
proof (intro conjI allI impI)
  show "(\<exists>status. fst (app libs remover req) = CorsPreflight status) \<longleftrightarrow>
      preflight_response req \<noteq> None"
    by (auto simp: app_def split: option.splits prod.splits sum.splits)
  show "(\<exists>p. fst (app libs remover req) = BuiltinRoute p) \<longleftrightarrow>
      preflight_response req = None \<and>
      (http_method req = ''GET'' \<or> http_method req = ''HEAD'') \<and>
      path req \<in> set builtin_paths"
    by (auto simp: app_def split: option.splits prod.splits sum.splits)
  show "fst (app libs remover req) = RequestValidationError \<or>
    (\<exists>f. fst (app libs remover req) = UnhandledException f) \<or>
    (\<exists>r. fst (app libs remover req) = Returned r) \<longleftrightarrow>
      http_method req = ''POST'' \<and> path req = ''/api/remove-background''"
  proof (cases "http_method req = ''POST'' \<and> path req = ''/api/remove-background''")
    case True
    then show ?thesis
      by (auto simp: app_post split: option.splits prod.splits sum.splits)
  next
    case False
    then have "http_method req \<noteq> ''POST'' \<or> path req \<noteq> ''/api/remove-background''"
      by simp
    from app_not_post [OF this, of libs remover] False show ?thesis
      by auto
  qed
next
  fix r
  assume ret: "fst (app libs remover req) = Returned r"
  have route: "http_method req = ''POST'' \<and> path req = ''/api/remove-background''"
  proof (rule ccontr)
    assume "\<not> ?thesis"
    then have "http_method req \<noteq> ''POST'' \<or> path req \<noteq> ''/api/remove-background''"
      by simp
    from app_not_post [OF this, of libs remover] ret show False
      by auto
  qed
  with ret obtain image_bytes where f: "form req ''file'' = Some image_bytes"
    by (cases "form req ''file''") (simp_all add: app_post)
  obtain res calls remover' where
    ep: "remove_background_endpoint libs remover image_bytes = (res, calls, remover')"
    by (cases "remove_background_endpoint libs remover image_bytes") auto
  with ret f route have res: "res = Inr r"
    by (auto simp: app_post split: sum.splits)
  from ep res obtain opened img out_img where
    op: "Image_open libs image_bytes = Inr opened" and
    cv: "convert libs opened ''RGB'' = Inr img" and
    pr: "process libs remover img ''rgba'' = (Inr out_img, remover')" and
    sv: "save libs out_img ''PNG'' = Inr (content r)" and
    r: "r = Response (content r) ''image/png''"
    by (auto elim: endpoint_success)
  from r have "status_code r = 200" and "media_type r = ''image/png''"
    by (metis Response_simps(3), metis Response_simps(2))
  then show "status_code r = 200" and "media_type r = ''image/png''"
    by simp_all
  from op cv have "decode libs image_bytes = Inr img"
    by (simp add: decode_def)
  with f pr sv show "\<exists>image_bytes img out_img. form req ''file'' = Some image_bytes \<and>
         decode libs image_bytes = Inr img \<and>
         fst (process libs remover img ''rgba'') = Inr out_img \<and>
         save libs out_img ''PNG'' = Inr (content r)"
    by auto
qed

theorem routes_and_png_response_witness:
  "fst (app demo_libs (''fast'', ''dynamic'') (demo_request demo_upload)) =
     Returned \<lparr>content = [1, 200, 100, 150, 255], media_type = ''image/png'', status_code = 200\<rparr> \<and>
   save demo_libs \<lparr>mode = ''RGBA'', width = 1, height = 1, pixels = [[200, 100, 150, 255]]\<rparr> ''PNG'' =
     Inr [1, 200, 100, 150, 255] \<and>
   fst (app demo_libs (''fast'', ''dynamic'') docs_request) = BuiltinRoute ''/docs'' \<and>
   fst (app demo_libs (''fast'', ''dynamic'') preflight_request) = CorsPreflight 200 \<and>
   fst (app demo_libs (''fast'', ''dynamic'')
     \<lparr>http_method = ''GET'', path = ''/api/remove-background'', headers = Map.empty,
      form = [''file'' \<mapsto> demo_upload]\<rparr>) = NoMatchingRoute \<and>
   fst (app demo_libs (''fast'', ''dynamic'')
     \<lparr>http_method = ''POST'', path = ''/'', headers = Map.empty,
      form = [''file'' \<mapsto> demo_upload]\<rparr>) = NoMatchingRoute"
proof -
  have a: "fst (app demo_libs (''fast'', ''dynamic'') (demo_request demo_upload)) =
     Returned (Response [1, 200, 100, 150, 255] ''image/png'')"
    by (simp add: app_post demo_request_simps demo_endpoint_upload)
  have d: "decode demo_libs demo_upload =
      Inr \<lparr>mode = ''RGB'', width = 1, height = 1, pixels = [[200, 100, 150]]\<rparr>"
    by (simp add: decode_def demo_defs)
  have pv: "fst (process demo_libs (''fast'', ''dynamic'')
      \<lparr>mode = ''RGB'', width = 1, height = 1, pixels = [[200, 100, 150]]\<rparr> ''rgba'') =
      Inr \<lparr>mode = ''RGBA'', width = 1, height = 1, pixels = [[200, 100, 150, 255]]\<rparr>"
    by (simp add: demo_defs)
  from routes_and_png_response [of demo_libs "(''fast'', ''dynamic'')" "demo_request demo_upload"] a
  have "status_code (Response [1, 200, 100, 150, 255] ''image/png'') = 200 \<and>
      (\<exists>image_bytes img out_img. form (demo_request demo_upload) ''file'' = Some image_bytes \<and>
         decode demo_libs image_bytes = Inr img \<and>
         fst (process demo_libs (''fast'', ''dynamic'') img ''rgba'') = Inr out_img \<and>
         save demo_libs out_img ''PNG'' = Inr (content (Response [1, 200, 100, 150, 255] ''image/png'')))"
    by simp
  with d pv have sv: "save demo_libs
      \<lparr>mode = ''RGBA'', width = 1, height = 1, pixels = [[200, 100, 150, 255]]\<rparr> ''PNG'' =
      Inr [1, 200, 100, 150, 255]"
    by (auto simp: demo_request_simps Response_simps)
  have others:
    "fst (app demo_libs (''fast'', ''dynamic'') docs_request) = BuiltinRoute ''/docs''"
    "fst (app demo_libs (''fast'', ''dynamic'') preflight_request) = CorsPreflight 200"
    "fst (app demo_libs (''fast'', ''dynamic'')
       \<lparr>http_method = ''GET'', path = ''/api/remove-background'', headers = Map.empty,
        form = [''file'' \<mapsto> demo_upload]\<rparr>) = NoMatchingRoute"
    "fst (app demo_libs (''fast'', ''dynamic'')
       \<lparr>http_method = ''POST'', path = ''/'', headers = Map.empty,
        form = [''file'' \<mapsto> demo_upload]\<rparr>) = NoMatchingRoute"
    by (simp_all add: app_def docs_request_def preflight_request_def preflight_response_def
        builtin_paths_def allow_methods_def)
  from a sv others show ?thesis
    by (simp add: Response_def)
qed


subsection \<open>Determinism\<close>

text \<open>
  Claim C7. If the model is deterministic, the handler's response (or exception) for an
  upload is the same whatever the state of the model object; so is the application's
  result for a request; and a request served twice in a row gets the same result twice,
  byte for byte.
\<close>

theorem same_upload_same_response:
  assumes "deterministic_model libs"
  shows "fst (remove_background_endpoint libs r1 image_bytes) =
           fst (remove_background_endpoint libs r2 image_bytes) \<and>
         fst (app libs r1 req) = fst (app libs r2 req) \<and>
         (\<exists>res. map fst (fst (serve libs r1 [req, req])) = [res, res])"
proof -
  have ep: "fst (remove_background_endpoint libs r b) = fst (remove_background_endpoint libs r' b)"
    for r r' b
  proof (cases "decode libs b")
    case (Inl e)
    from endpoint_not_decoded [OF this, of r] endpoint_not_decoded [OF Inl, of r']
    show ?thesis by auto
  next
    case (Inr img)
    from assms have "fst (process libs r img ''rgba'') = fst (process libs r' img ''rgba'')"
      unfolding deterministic_model_def by blast
    with endpoint_decoded [OF Inr, of r] endpoint_decoded [OF Inr, of r']
    show ?thesis by simp
  qed
  have ap: "fst (app libs r q) = fst (app libs r' q)" for r r' q
  proof (cases "http_method q = ''POST'' \<and> path q = ''/api/remove-background''")
    case False
    then show ?thesis by (auto simp: app_def split: option.splits)
  next
    case True
    show ?thesis
    proof (cases "form q ''file''")
      case None
      with True show ?thesis by (simp add: app_post)
    next
      case (Some b)
      with True ep [of r b r'] show ?thesis
        by (auto simp: app_post split: prod.splits sum.splits)
    qed
  qed
  obtain res calls r' where a: "app libs r1 req = (res, calls, r')"
    by (cases "app libs r1 req") auto
  with ap [of r' req r1] have "fst (app libs r' req) = res"
    by simp
  with a have "map fst (fst (serve libs r1 [req, req])) = [res, res]"
    by (auto split: prod.splits)
  then have "\<exists>res. map fst (fst (serve libs r1 [req, req])) = [res, res]" ..
  with ep [of r1 image_bytes r2] ap [of r1 req r2] show ?thesis
    by (intro conjI)
qed

theorem same_upload_same_response_witness:
  "fst (remove_background_endpoint demo_libs (''fast'', ''dynamic'') demo_upload) =
     fst (remove_background_endpoint demo_libs (''base'', ''static'') demo_upload) \<and>
   map fst (fst (serve demo_libs (''fast'', ''dynamic'') [demo_request demo_upload, demo_request demo_upload])) =
     [Returned (Response [1, 200, 100, 150, 255] ''image/png''),
      Returned (Response [1, 200, 100, 150, 255] ''image/png'')]"
proof -
  have a: "fst (app demo_libs (''fast'', ''dynamic'') (demo_request demo_upload)) =
     Returned (Response [1, 200, 100, 150, 255] ''image/png'')"
    by (simp add: app_post demo_request_simps demo_endpoint_upload)
  from same_upload_same_response [OF demo_deterministic_model,
      of "(''fast'', ''dynamic'')" demo_upload "(''base'', ''static'')" "demo_request demo_upload"]
  obtain res where
    e: "fst (remove_background_endpoint demo_libs (''fast'', ''dynamic'') demo_upload) =
        fst (remove_background_endpoint demo_libs (''base'', ''static'') demo_upload)"
    and s: "map fst (fst (serve demo_libs (''fast'', ''dynamic'')
        [demo_request demo_upload, demo_request demo_upload])) = [res, res]"
    by (elim conjE exE)
  from s a have "res = Returned (Response [1, 200, 100, 150, 255] ''image/png'')"
    by (auto split: prod.splits)
  with e s show ?thesis by simp
qed



subsection \<open>A request without the file field\<close>

text \<open>
  Claim C8. A POST to the route whose body has no field \<^verbatim>\<open>file\<close> ends in the
  framework's validation error: no library call is made (nothing is decoded, the model is
  not called), \<^verbatim>\<open>remover\<close> is unchanged, the result is not a Decode Error, and the
  process serves the requests that follow.
\<close>

theorem missing_file_field_never_reaches_handler:
  assumes "http_method req = ''POST''" and "path req = ''/api/remove-background''"
    and "form req ''file'' = None"
  shows "app libs remover req = (RequestValidationError, [], remover) \<and>
         (\<forall>e. fst (app libs remover req) \<noteq> UnhandledException (DecodeError e)) \<and>
         (\<forall>reqs. serve libs remover (req # reqs) =
            ((RequestValidationError, []) # fst (serve libs remover reqs),
             snd (serve libs remover reqs)))"
  using assms by (simp add: app_post split: prod.splits)

theorem missing_file_field_never_reaches_handler_witness:
  "app demo_libs (''fast'', ''dynamic'') demo_request_no_file =
     (RequestValidationError, [], (''fast'', ''dynamic'')) \<and>
   fst (app demo_libs (''fast'', ''dynamic'') (demo_request [])) =
     UnhandledException (DecodeError ''cannot identify image file'')"
proof -
  have "http_method demo_request_no_file = ''POST''"
    and "path demo_request_no_file = ''/api/remove-background''"
    and "form demo_request_no_file ''file'' = None"
    by (simp_all add: demo_request_no_file_def)
  from missing_file_field_never_reaches_handler [OF this, of demo_libs "(''fast'', ''dynamic'')"]
  show ?thesis
    by (simp add: app_post demo_request_simps demo_endpoint_empty)
qed


subsection \<open>Transparency of the upload\<close>

text \<open>The response is a function of what line 20 yields and of the model object.\<close>

lemma response_depends_on_decoded_image:
  assumes "decode libs b1 = decode libs b2"
  shows "fst (remove_background_endpoint libs remover b1) =
         fst (remove_background_endpoint libs remover b2)"
proof (cases "decode libs b1")
  case (Inl e)
  with assms have "decode libs b2 = Inl e" by simp
  from endpoint_not_decoded [OF Inl, of remover] endpoint_not_decoded [OF this, of remover]
  show ?thesis by auto
next
  case (Inr img)
  with assms have "decode libs b2 = Inr img" by simp
  from endpoint_decoded [OF Inr, of remover] endpoint_decoded [OF this, of remover]
  show ?thesis by simp
qed

text \<open>
  Claim C9. Two decodable uploads that open as RGBA images of the same size with the same
  red, green and blue samples in every pixel, whatever their alpha samples, are converted
  to the same RGB image (Pillow drops the fourth band), so the model is called on the
  same image and the two responses are identical.
\<close>

theorem alpha_of_upload_is_discarded:
  assumes "convert_drops_alpha libs"
    and "Image_open libs b1 = Inr im1" and "Image_open libs b2 = Inr im2"
    and "decodable libs b1" and "decodable libs b2"
    and "mode im1 = ''RGBA''" and "mode im2 = ''RGBA''"
    and "width im1 = width im2" and "height im1 = height im2"
    and "map (take 3) (pixels im1) = map (take 3) (pixels im2)"
  shows "decode libs b1 = decode libs b2 \<and>
         fst (remove_background_endpoint libs remover b1) =
           fst (remove_background_endpoint libs remover b2) \<and>
         filter is_Infer (fst (snd (remove_background_endpoint libs remover b1))) =
           filter is_Infer (fst (snd (remove_background_endpoint libs remover b2)))"
proof -
  from assms(2,4) obtain img1 where c1: "convert libs im1 ''RGB'' = Inr img1"
    by (cases "convert libs im1 ''RGB''") (simp_all add: decodable_def decode_def)
  from assms(3,5) obtain img2 where c2: "convert libs im2 ''RGB'' = Inr img2"
    by (cases "convert libs im2 ''RGB''") (simp_all add: decodable_def decode_def)
  from assms(1,6) c1 have i1: "img1 = im1\<lparr>mode := ''RGB'', pixels := map (take 3) (pixels im1)\<rparr>"
    unfolding convert_drops_alpha_def by blast
  from assms(1,7) c2 have i2: "img2 = im2\<lparr>mode := ''RGB'', pixels := map (take 3) (pixels im2)\<rparr>"
    unfolding convert_drops_alpha_def by blast
  from i1 i2 assms(8-10) have same: "img1 = img2"
    by (cases im1, cases im2) simp
  with assms(2,3) c1 c2 have d: "decode libs b1 = decode libs b2"
    by (simp add: decode_def)
  have "filter is_Infer (fst (snd (remove_background_endpoint libs remover b1))) =
      filter is_Infer (fst (snd (remove_background_endpoint libs remover b2)))"
    using assms(2,3) c1 c2 same
    by (auto simp: remove_background_endpoint_def split: sum.splits prod.splits)
  with d response_depends_on_decoded_image [OF d, of remover] show ?thesis
    by (intro conjI)
qed

theorem alpha_of_upload_is_discarded_witness:
  "Image_open demo_libs [1, 200, 100, 150, 255] =
     Inr \<lparr>mode = ''RGBA'', width = 1, height = 1, pixels = [[200, 100, 150, 255]]\<rparr> \<and>
   Image_open demo_libs [1, 200, 100, 150, 7] =
     Inr \<lparr>mode = ''RGBA'', width = 1, height = 1, pixels = [[200, 100, 150, 7]]\<rparr> \<and>
   fst (remove_background_endpoint demo_libs (''fast'', ''dynamic'') [1, 200, 100, 150, 255]) =
     fst (remove_background_endpoint demo_libs (''fast'', ''dynamic'') [1, 200, 100, 150, 7]) \<and>
   fst (remove_background_endpoint demo_libs (''fast'', ''dynamic'') [1, 200, 100, 150, 7]) =
     Inr (Response [1, 200, 100, 150, 255] ''image/png'')"
proof -
  have o1: "Image_open demo_libs [1, 200, 100, 150, 255] =
      Inr \<lparr>mode = ''RGBA'', width = 1, height = 1, pixels = [[200, 100, 150, 255]]\<rparr>"
    and o2: "Image_open demo_libs [1, 200, 100, 150, 7] =
      Inr \<lparr>mode = ''RGBA'', width = 1, height = 1, pixels = [[200, 100, 150, 7]]\<rparr>"
    by (simp_all add: demo_defs)
  have d1: "decodable demo_libs [1, 200, 100, 150, 255]"
    and d2: "decodable demo_libs [1, 200, 100, 150, 7]"
    by (simp_all add: decodable_def decode_def demo_defs)
  have r: "fst (remove_background_endpoint demo_libs (''fast'', ''dynamic'') [1, 200, 100, 150, 255]) =
      Inr (Response [1, 200, 100, 150, 255] ''image/png'')"
    by (simp add: remove_background_endpoint_def demo_defs)
  from alpha_of_upload_is_discarded [OF demo_convert_drops_alpha o1 o2 d1 d2,
      of "(''fast'', ''dynamic'')"] o1 o2 r
  show ?thesis by simp
qed


subsection \<open>Failed requests\<close>




end
